theory Spec2Isabelle
  imports Complex_Main "HOL-Library.AList"
begin

section \<open>Numeric cells\<close>

text \<open>
  Every numeric cell of the data frame and every scalar statistic of \<^verbatim>\<open>app.py\<close> is a
  pandas/numpy \<^verbatim>\<open>float64\<close>. The model keeps the four kinds of value that decide the
  control flow of the script: a finite number, the two infinities and NaN (which is also
  how pandas stores a missing cell). Finite numbers are exact reals: rounding, overflow
  to infinity, the sign of zero and the wrap-around of \<^verbatim>\<open>int64\<close> columns are outside
  the model. Arithmetic on a pandas Series never raises: a zero divisor gives an
  infinity or NaN, and NaN propagates.
\<close>

datatype float64 = Fin real | PInf | NInf | NaN

fun fneg :: "float64 \<Rightarrow> float64" where
  "fneg (Fin a) = Fin (- a)"
| "fneg PInf = NInf"
| "fneg NInf = PInf"
| "fneg NaN = NaN"

fun fadd :: "float64 \<Rightarrow> float64 \<Rightarrow> float64" where
  "fadd NaN y = NaN"
| "fadd x NaN = NaN"
| "fadd (Fin a) (Fin b) = Fin (a + b)"
| "fadd PInf NInf = NaN"
| "fadd NInf PInf = NaN"
| "fadd PInf y = PInf"
| "fadd x PInf = PInf"
| "fadd NInf y = NInf"
| "fadd x NInf = NInf"

definition fsub :: "float64 \<Rightarrow> float64 \<Rightarrow> float64" where
  "fsub x y = fadd x (fneg y)"

text \<open>The sign of a value that is not NaN: \<open>-1\<close>, \<open>0\<close> or \<open>1\<close>.\<close>

fun fsgn :: "float64 \<Rightarrow> int" where
  "fsgn (Fin a) = (if a < 0 then - 1 else if a = 0 then 0 else 1)"
| "fsgn PInf = 1"
| "fsgn NInf = - 1"
| "fsgn NaN = 0"

fun fmul :: "float64 \<Rightarrow> float64 \<Rightarrow> float64" where
  "fmul NaN y = NaN"
| "fmul x NaN = NaN"
| "fmul (Fin a) (Fin b) = Fin (a * b)"
| "fmul x y =
     (if fsgn x * fsgn y = 0 then NaN else if 0 < fsgn x * fsgn y then PInf else NInf)"

text \<open>
  Division as numpy does it on \<^verbatim>\<open>float64\<close>: a non-zero number over zero is an
  infinity with the sign of the dividend, zero over zero is NaN, and nothing raises.
\<close>

fun fdiv :: "float64 \<Rightarrow> float64 \<Rightarrow> float64" where
  "fdiv NaN y = NaN"
| "fdiv x NaN = NaN"
| "fdiv (Fin a) (Fin b) =
     (if b \<noteq> 0 then Fin (a / b)
      else if a = 0 then NaN else if 0 < a then PInf else NInf)"
| "fdiv (Fin a) y = Fin 0"
| "fdiv x (Fin b) = (if (0 \<le> b) = (x = PInf) then PInf else NInf)"
| "fdiv x y = NaN"

text \<open>Comparison: every comparison with NaN is false.\<close>

fun flt :: "float64 \<Rightarrow> float64 \<Rightarrow> bool" where
  "flt NaN y = False"
| "flt x NaN = False"
| "flt (Fin a) (Fin b) = (a < b)"
| "flt x NInf = False"
| "flt NInf y = True"
| "flt PInf y = False"
| "flt x PInf = True"

definition fgt :: "float64 \<Rightarrow> float64 \<Rightarrow> bool" where
  "fgt x y = flt y x"

section \<open>Series reductions\<close>

text \<open>
  \<^verbatim>\<open>Series.mean()\<close>, \<^verbatim>\<open>.min()\<close> and \<^verbatim>\<open>.max()\<close> skip NaN cells
  (\<^verbatim>\<open>skipna=True\<close>) and return NaN, without raising, when no cell is left: so for
  an empty column and for a column of missing cells.
\<close>

definition notna :: "float64 list \<Rightarrow> float64 list" where
  "notna xs = filter (\<lambda>x. x \<noteq> NaN) xs"

definition series_sum :: "float64 list \<Rightarrow> float64" where
  "series_sum xs = foldl fadd (Fin 0) xs"

definition series_mean :: "float64 list \<Rightarrow> float64" where
  "series_mean xs =
     (if notna xs = [] then NaN
      else fdiv (series_sum (notna xs)) (Fin (real (length (notna xs)))))"

definition series_max :: "float64 list \<Rightarrow> float64" where
  "series_max xs =
     (case notna xs of [] \<Rightarrow> NaN
      | y # ys \<Rightarrow> foldl (\<lambda>m x. if flt m x then x else m) y ys)"

definition series_min :: "float64 list \<Rightarrow> float64" where
  "series_min xs =
     (case notna xs of [] \<Rightarrow> NaN
      | y # ys \<Rightarrow> foldl (\<lambda>m x. if flt x m then x else m) y ys)"

section \<open>The data frame\<close>

text \<open>
  The frame \<^verbatim>\<open>df\<close> as it stands after line 52 of \<^verbatim>\<open>app.py\<close>: the timestamps are
  parsed, the rows that failed to parse are dropped, and every row has its calendar
  date (a \<^verbatim>\<open>datetime.date\<close>, here its day ordinal). The numeric columns are an
  ordered bag of named columns, as \<^verbatim>\<open>df.columns\<close> is; which of them are present is
  decided by the uploaded file. The string and timestamp columns take part in no
  computation but the calendar filter and are represented by \<open>Date\<close>.
\<close>

type_synonym date = int

record frame =
  Date :: "date list"
  columns :: "(string \<times> float64 list) list"

text \<open>In a pandas frame every column has one cell per row.\<close>

definition wf_frame :: "frame \<Rightarrow> bool" where
  "wf_frame df = list_all (\<lambda>(c, xs). length xs = length (Date df)) (columns df)"

text \<open>\<^verbatim>\<open>c in df.columns\<close>\<close>

definition has_col :: "frame \<Rightarrow> string \<Rightarrow> bool" where
  "has_col df c = (c \<in> set (map fst (columns df)))"

text \<open>\<^verbatim>\<open>df[c]\<close>: \<open>None\<close> when the column is absent.\<close>

definition col :: "frame \<Rightarrow> string \<Rightarrow> float64 list option" where
  "col df c = map_of (columns df) c"

datatype error = KeyError string

text \<open>\<^verbatim>\<open>df[c]\<close> where the script reads it: an absent column raises \<^verbatim>\<open>KeyError\<close>.\<close>

definition getitem :: "frame \<Rightarrow> string \<Rightarrow> error + float64 list" where
  "getitem df c = (case col df c of None \<Rightarrow> Inl (KeyError c) | Some xs \<Rightarrow> Inr xs)"

text \<open>
  \<^verbatim>\<open>df[c] = v\<close>: a column of that name is replaced where it stands, a new name is
  appended after the last column.
\<close>

definition set_col :: "frame \<Rightarrow> string \<Rightarrow> float64 list \<Rightarrow> frame" where
  "set_col df c v = df\<lparr>columns := AList.update c v (columns df)\<rparr>"

text \<open>\<^verbatim>\<open>df[mask]\<close>: the rows whose mask \<open>keep\<close> is true, in their order, in every column.\<close>

definition select_rows :: "bool list \<Rightarrow> 'a list \<Rightarrow> 'a list" where
  "select_rows keep xs = map snd (filter fst (zip keep xs))"

definition filter_rows :: "bool list \<Rightarrow> frame \<Rightarrow> frame" where
  "filter_rows keep df =
     \<lparr>Date = select_rows keep (Date df),
      columns = map (\<lambda>(c, xs). (c, select_rows keep xs)) (columns df)\<rparr>"

abbreviation shaker_col :: string where "shaker_col \<equiv> ''SHAKER #3 (PERCENT)''"
abbreviation screen_col :: string where "screen_col \<equiv> ''Screen Utilization (%)''"
abbreviation wob_col :: string where "wob_col \<equiv> ''Weight on Bit (klbs)''"
abbreviation flow_col :: string where "flow_col \<equiv> ''MA_Flow_Rate (gal/min)''"
abbreviation solids_col :: string where "solids_col \<equiv> ''Solids Volume Rate (gpm)''"
abbreviation bit_depth_col :: string where "bit_depth_col \<equiv> ''Bit Depth (feet)''"
abbreviation hole_depth_col :: string where "hole_depth_col \<equiv> ''Hole Depth (feet)''"

section \<open>Sidebar configuration (lines 25-29)\<close>

datatype mesh_type = API_100 | API_140 | API_170 | API_200

fun SCREEN_MESH_CAPACITY :: "mesh_type \<Rightarrow> int" where
  "SCREEN_MESH_CAPACITY API_100 = 250"
| "SCREEN_MESH_CAPACITY API_140 = 200"
| "SCREEN_MESH_CAPACITY API_170 = 160"
| "SCREEN_MESH_CAPACITY API_200 = 120"

section \<open>Calendar filter (lines 55-58)\<close>

text \<open>
  \<^verbatim>\<open>date_options = sorted(df['Date'].dropna().unique())\<close>; the select box returns one
  of the options, or \<^verbatim>\<open>None\<close> when there is none. The filter keeps the rows whose
  date equals the selection.
\<close>

definition date_options :: "frame \<Rightarrow> date list" where
  "date_options df = sort (remdups (Date df))"

definition calendar_filter :: "date option \<Rightarrow> frame \<Rightarrow> frame" where
  "calendar_filter selected_date df =
     filter_rows (map (\<lambda>d. Some d = selected_date) (Date df)) df"

section \<open>Screen utilization (lines 61-64)\<close>

text \<open>
  The two reads of line 63 cannot fail under the guard of line 62, so the last branch of
  the \<open>case\<close> is never taken (lemma \<open>has_col_iff\<close> below). Line 64 reads the column
  that line 63 has just stored.
\<close>

definition deriveUtilization :: "int \<Rightarrow> frame \<Rightarrow> frame" where
  "deriveUtilization mesh_capacity df =
     (if \<not> has_col df screen_col then
        (if has_col df wob_col \<and> has_col df flow_col then
           (case (col df wob_col, col df flow_col) of
              (Some wob, Some flow) \<Rightarrow>
                let solids = map (\<lambda>x. fdiv x (Fin 100)) (map2 fmul wob flow);
                    df1 = set_col df solids_col solids;
                    util = map (\<lambda>x. fmul (fdiv x (Fin (real_of_int mesh_capacity))) (Fin 100))
                             solids
                in set_col df1 screen_col util
            | _ \<Rightarrow> df)
         else df)
      else df)"

section \<open>Summary statistics, screen life and anomaly flag (lines 68-95)\<close>

text \<open>
  Lines 89-92: \<^verbatim>\<open>st.error\<close> is the critical flag, \<^verbatim>\<open>st.warning\<close> the low-throughput
  warning, and no message is the normal state.
\<close>

datatype anomaly = Critical | Warning | Normal

definition classifyAnomaly :: "float64 \<Rightarrow> float64 \<Rightarrow> anomaly" where
  "classifyAnomaly shaker_avg shaker_max =
     (if flt shaker_avg (Fin 0) \<or> fgt shaker_max (Fin 150) then Critical
      else if flt shaker_avg (Fin 20) then Warning
      else Normal)"

text \<open>Line 81.\<close>

definition screenLife :: "float64 \<Rightarrow> float64" where
  "screenLife screen_avg = fsub (Fin 120) (fmul (fdiv screen_avg (Fin 100)) (Fin 30))"

record summary =
  total_depth :: float64
  shaker_avg :: float64
  shaker_min :: float64
  shaker_max :: float64
  screen_avg :: float64
  screen_min :: float64
  screen_max :: float64
  screen_life :: float64
  alert :: anomaly

text \<open>
  The body of the \<^verbatim>\<open>try\<close> block. The first column read that is absent raises
  \<^verbatim>\<open>KeyError\<close>, the rest of the block is skipped and the \<^verbatim>\<open>except\<close> clause shows
  "Summary stats unavailable" (the \<open>Inl\<close> result). The metrics and the anomaly flag
  are shown only after every statistic has been computed.
\<close>

definition summarize :: "frame \<Rightarrow> error + summary" where
  "summarize df =
     (let depth_col = (if has_col df bit_depth_col then bit_depth_col else hole_depth_col) in
      case getitem df depth_col of Inl e \<Rightarrow> Inl e | Inr depth \<Rightarrow>
      case getitem df shaker_col of Inl e \<Rightarrow> Inl e | Inr shaker \<Rightarrow>
      case getitem df screen_col of Inl e \<Rightarrow> Inl e | Inr screen \<Rightarrow>
        Inr \<lparr>total_depth = series_max depth,
             shaker_avg = series_mean shaker,
             shaker_min = series_min shaker,
             shaker_max = series_max shaker,
             screen_avg = series_mean screen,
             screen_min = series_min screen,
             screen_max = series_max screen,
             screen_life = screenLife (series_mean screen),
             alert = classifyAnomaly (series_mean shaker) (series_max shaker)\<rparr>)"

section \<open>Drop flags (line 111)\<close>

definition detectDrops :: "frame \<Rightarrow> error + frame" where
  "detectDrops df =
     (case getitem df shaker_col of Inl e \<Rightarrow> Inl e
      | Inr shaker \<Rightarrow> Inr (filter_rows (map (\<lambda>x. flt x (Fin (- 10))) shaker) df))"

section \<open>Solids removal efficiency (lines 125-134)\<close>

record efficiency_tab =
  efficiency :: "float64 list"
  eff_avg :: float64
  pie_slices :: "float64 list"

text \<open>
  \<^verbatim>\<open>1e-5\<close> is the real \<open>1 / 100000\<close>. \<open>pie_slices\<close> is the \<^verbatim>\<open>values\<close> argument of
  \<^verbatim>\<open>px.pie\<close>: removed solids, then losses.
\<close>

definition computeEfficiency :: "frame \<Rightarrow> error + efficiency_tab" where
  "computeEfficiency df =
     (case getitem df wob_col of Inl e \<Rightarrow> Inl e | Inr wob \<Rightarrow>
      case getitem df flow_col of Inl e \<Rightarrow> Inl e | Inr flow \<Rightarrow>
      case getitem df shaker_col of Inl e \<Rightarrow> Inl e | Inr out_rate \<Rightarrow>
        let in_rate = map (\<lambda>x. fdiv x (Fin 100)) (map2 fmul wob flow);
            eff = map (\<lambda>x. fmul x (Fin 100))
                    (map2 fdiv out_rate (map (\<lambda>x. fadd x (Fin (1 / 100000))) in_rate));
            avg = series_mean eff
        in Inr \<lparr>efficiency = eff, eff_avg = avg, pie_slices = [avg, fsub (Fin 100) avg]\<rparr>)"

section \<open>One pass of the script over an uploaded frame\<close>

record dashboard =
  shown :: frame
  overview :: "error + summary"
  drop_flags :: "error + frame"
  efficiency_section :: "error + efficiency_tab"

definition metrics_engine :: "mesh_type \<Rightarrow> date option \<Rightarrow> frame \<Rightarrow> dashboard" where
  "metrics_engine df_mesh_type selected_date df0 =
     (let df = deriveUtilization (SCREEN_MESH_CAPACITY df_mesh_type)
                 (calendar_filter selected_date df0)
      in \<lparr>shown = df, overview = summarize df, drop_flags = detectDrops df,
          efficiency_section = computeEfficiency df\<rparr>)"

section \<open>Example frames\<close>

text \<open>
  The two readings of 2024-01-01 (day ordinal 738886): loads 50 and -20, weight on bit
  10, flow rate 200, depths 1000 and 1005, no utilization column.
\<close>

definition example_day :: frame where
  "example_day =
     \<lparr>Date = [738886, 738886],
      columns = [(shaker_col, [Fin 50, Fin (- 20)]), (wob_col, [Fin 10, Fin 10]),
                 (flow_col, [Fin 200, Fin 200]), (bit_depth_col, [Fin 1000, Fin 1005])]\<rparr>"


text \<open>One reading with a load and a utilization, and neither depth column.\<close>

definition no_depth_day :: frame where
  "no_depth_day =
     \<lparr>Date = [738886],
      columns = [(shaker_col, [Fin 50]), (screen_col, [Fin 8]), (wob_col, [Fin 10]),
                 (flow_col, [Fin 200])]\<rparr>"

text \<open>One reading with no weight on bit: load 50, flow rate 200.\<close>

definition idle_day :: frame where
  "idle_day =
     \<lparr>Date = [738886],
      columns = [(shaker_col, [Fin 50]), (wob_col, [Fin 0]), (flow_col, [Fin 200])]\<rparr>"

text \<open>
  One reading of a file that already has a \<^verbatim>\<open>Solids Volume Rate (gpm)\<close> column (999)
  and no utilization column.
\<close>

definition presolids_day :: frame where
  "presolids_day =
     \<lparr>Date = [738886],
      columns = [(solids_col, [Fin 999]), (wob_col, [Fin 10]), (flow_col, [Fin 200])]\<rparr>"

text \<open>The summary of \<open>example_day\<close> under mesh capacity 250.\<close>

definition example_summary :: summary where
  "example_summary =
     \<lparr>total_depth = Fin 1005, shaker_avg = Fin 15, shaker_min = Fin (- 20),
      shaker_max = Fin 50, screen_avg = Fin 8, screen_min = Fin 8, screen_max = Fin 8,
      screen_life = Fin 117.6, alert = Warning\<rparr>"


section \<open>Basic facts\<close>

lemma has_col_iff: "has_col df c \<longleftrightarrow> col df c \<noteq> None"
  by (simp add: has_col_def col_def map_of_eq_None_iff)


lemma getitem_Inl_iff: "getitem df c = Inl e \<longleftrightarrow> col df c = None \<and> e = KeyError c"
  by (auto simp: getitem_def split: option.splits)

lemma col_set_col: "col (set_col df c v) c' = (if c' = c then Some v else col df c')"
  by (simp add: col_def set_col_def update_conv')

lemma Date_set_col: "Date (set_col df c v) = Date df"
  by (simp add: set_col_def)

lemma names_set_col:
  "map fst (columns (set_col df c v)) =
     (if has_col df c then map fst (columns df) else map fst (columns df) @ [c])"
  by (simp add: set_col_def has_col_def update_keys)

lemma has_col_set_col: "has_col (set_col df c v) c' \<longleftrightarrow> c' = c \<or> has_col df c'"
  by (auto simp: has_col_iff col_set_col)

lemma list_all_update:
  "list_all P al \<Longrightarrow> P (k, v) \<Longrightarrow> list_all P (AList.update k v al)"
  by (induction al) auto

lemma wf_set_col:
  "wf_frame df \<Longrightarrow> length v = length (Date df) \<Longrightarrow> wf_frame (set_col df c v)"
  by (simp add: wf_frame_def set_col_def list_all_update)

lemma wf_col_length: "wf_frame df \<Longrightarrow> col df c = Some xs \<Longrightarrow> length xs = length (Date df)"
  unfolding wf_frame_def col_def list_all_iff
  by (auto dest!: map_of_SomeD)

text \<open>What line 63 and line 64 store, given the two columns they read.\<close>

lemma deriveUtilization_computes:
  assumes "\<not> has_col df screen_col" "col df wob_col = Some wob" "col df flow_col = Some flow"
  shows "deriveUtilization mesh_capacity df =
     set_col (set_col df solids_col (map (\<lambda>x. fdiv x (Fin 100)) (map2 fmul wob flow)))
       screen_col
       (map (\<lambda>x. fmul (fdiv x (Fin (real_of_int mesh_capacity))) (Fin 100))
          (map (\<lambda>x. fdiv x (Fin 100)) (map2 fmul wob flow)))"
  using assms by (simp add: deriveUtilization_def has_col_iff Let_def)

lemma deriveUtilization_noop:
  "has_col df screen_col \<or> \<not> has_col df wob_col \<or> \<not> has_col df flow_col \<Longrightarrow>
     deriveUtilization mesh_capacity df = df"
  by (auto simp: deriveUtilization_def)

lemma summarize_Inr_fields:
  assumes "summarize df = Inr s"
  shows "alert s = classifyAnomaly (shaker_avg s) (shaker_max s)"
    and "screen_life s = screenLife (screen_avg s)"
  using assms by (auto simp: summarize_def Let_def split: sum.splits)

lemma example_day_derived:
  "deriveUtilization 250 example_day =
     example_day\<lparr>columns := columns example_day
        @ [(solids_col, [Fin 20, Fin 20]), (screen_col, [Fin 8, Fin 8])]\<rparr>"
  by (simp add: example_day_def deriveUtilization_def has_col_def col_def set_col_def)

lemma example_day_summary:
  "summarize (deriveUtilization 250 example_day) = Inr example_summary"
  unfolding example_day_derived
  by (simp add: example_day_def example_summary_def has_col_def col_def summarize_def
      getitem_def series_mean_def series_max_def series_min_def series_sum_def notna_def
      screenLife_def classifyAnomaly_def fsub_def fgt_def)

section \<open>Anomaly classification\<close>

lemma classifyAnomaly_Fin:
  "classifyAnomaly (Fin m) (Fin x) =
     (if m < 0 \<or> 150 < x then Critical else if m < 20 then Warning else Normal)"
  by (simp add: classifyAnomaly_def fgt_def)

lemma classifyAnomaly_negative_mean: "classifyAnomaly (Fin (- 1)) y = Critical"
  by (cases y) (simp_all add: classifyAnomaly_def fgt_def)

text \<open>
  C1. The anomaly flag is a function of the mean and the maximum of the shaker load
  alone, with the first matching rule winning: Critical when the mean is negative or the
  maximum exceeds 150, else Warning when the mean is below 20, else Normal. A mean of -1
  is Critical whatever the maximum; mean 25 with maximum 160 is Critical; mean 10 with
  maximum 50 is Warning; mean 50 with maximum 60 is Normal; mean 15 with maximum 50 (the
  loads 50 and -20) is Warning. The flag of a summary is this function of the summary's
  own mean and maximum.
\<close>

theorem classifyAnomaly_first_match:
  "classifyAnomaly (Fin m) (Fin x) =
     (if m < 0 \<or> 150 < x then Critical else if m < 20 then Warning else Normal)
   \<and> classifyAnomaly (Fin (- 1)) y = Critical
   \<and> classifyAnomaly (Fin 25) (Fin 160) = Critical
   \<and> classifyAnomaly (Fin 10) (Fin 50) = Warning
   \<and> classifyAnomaly (Fin 50) (Fin 60) = Normal
   \<and> classifyAnomaly (Fin 15) (Fin 50) = Warning
   \<and> (summarize df = Inr s \<longrightarrow> alert s = classifyAnomaly (shaker_avg s) (shaker_max s))"
proof -
  have "summarize df = Inr s \<longrightarrow> alert s = classifyAnomaly (shaker_avg s) (shaker_max s)"
    by (simp add: summarize_Inr_fields(1))
  moreover note classifyAnomaly_Fin [of m x] classifyAnomaly_negative_mean [of y]
  moreover have "classifyAnomaly (Fin 25) (Fin 160) = Critical"
    "classifyAnomaly (Fin 10) (Fin 50) = Warning"
    "classifyAnomaly (Fin 50) (Fin 60) = Normal"
    "classifyAnomaly (Fin 15) (Fin 50) = Warning"
    by (simp_all add: classifyAnomaly_Fin)
  ultimately show ?thesis by blast
qed

theorem classifyAnomaly_first_match_witness:
  "summarize (deriveUtilization 250 example_day) = Inr example_summary
   \<and> shaker_avg example_summary = Fin 15 \<and> shaker_max example_summary = Fin 50
   \<and> alert example_summary = classifyAnomaly (Fin 15) (Fin 50)
   \<and> classifyAnomaly (Fin 15) (Fin 50) = Warning"
proof -
  have a: "shaker_avg example_summary = Fin 15" "shaker_max example_summary = Fin 50"
    by (simp_all add: example_summary_def)
  from classifyAnomaly_first_match
    [where df = "deriveUtilization 250 example_day" and s = example_summary]
  show ?thesis using example_day_summary a by simp
qed

section \<open>Screen life\<close>

lemma screenLife_Fin: "screenLife (Fin u) = Fin (120 - 0.3 * u)"
  by (simp add: screenLife_def fsub_def)

text \<open>
  C4. The screen-life estimate of a summary is the linear function \<open>120 - 0.3 u\<close> of the
  utilization mean \<open>u\<close>: 120 at 0, 90 at 100, and 117.6 at the mean 8 of the example.
\<close>

theorem screenLife_linear:
  "screenLife (Fin u) = Fin (120 - 0.3 * u)
   \<and> screenLife (Fin 0) = Fin 120
   \<and> screenLife (Fin 100) = Fin 90
   \<and> screenLife (Fin 8) = Fin 117.6
   \<and> (summarize df = Inr s \<longrightarrow> screen_avg s = Fin u \<longrightarrow> screen_life s = Fin (120 - 0.3 * u))"
proof -
  have "summarize df = Inr s \<longrightarrow> screen_avg s = Fin u \<longrightarrow> screen_life s = Fin (120 - 0.3 * u)"
    by (simp add: summarize_Inr_fields(2) screenLife_Fin)
  moreover have "screenLife (Fin 0) = Fin 120" "screenLife (Fin 100) = Fin 90"
    "screenLife (Fin 8) = Fin 117.6"
    by (simp_all add: screenLife_Fin)
  ultimately show ?thesis using screenLife_Fin [of u] by blast
qed

theorem screenLife_linear_witness:
  "summarize (deriveUtilization 250 example_day) = Inr example_summary
   \<and> screen_avg example_summary = Fin 8
   \<and> screen_life example_summary = Fin (120 - 0.3 * 8)
   \<and> screen_life example_summary = Fin 117.6"
proof -
  have a: "screen_avg example_summary = Fin 8"
    by (simp add: example_summary_def)
  from screenLife_linear
    [where df = "deriveUtilization 250 example_day" and s = example_summary and u = 8]
  have "screen_life example_summary = Fin (120 - 0.3 * 8)"
    using example_day_summary a by blast
  then show ?thesis using example_day_summary a by simp
qed

section \<open>Deriving the utilization column\<close>

lemma deriveUtilization_changes:
  assumes "deriveUtilization mesh_capacity df \<noteq> df"
  shows "\<not> has_col df screen_col \<and> has_col df wob_col \<and> has_col df flow_col"
  using assms deriveUtilization_noop [of df mesh_capacity] by blast

lemma deriveUtilization_adds:
  assumes "\<not> has_col df screen_col" "has_col df wob_col" "has_col df flow_col"
  shows "has_col (deriveUtilization mesh_capacity df) screen_col"
    and "has_col (deriveUtilization mesh_capacity df) solids_col"
proof -
  from assms obtain wob flow where "col df wob_col = Some wob" "col df flow_col = Some flow"
    by (auto simp: has_col_iff)
  then have eq: "deriveUtilization mesh_capacity df =
     set_col (set_col df solids_col (map (\<lambda>x. fdiv x (Fin 100)) (map2 fmul wob flow)))
       screen_col
       (map (\<lambda>x. fmul (fdiv x (Fin (real_of_int mesh_capacity))) (Fin 100))
          (map (\<lambda>x. fdiv x (Fin 100)) (map2 fmul wob flow)))"
    using assms(1) by (rule deriveUtilization_computes [rotated])
  show "has_col (deriveUtilization mesh_capacity df) screen_col"
    unfolding eq by (simp add: has_col_set_col)
  show "has_col (deriveUtilization mesh_capacity df) solids_col"
    unfolding eq by (simp add: has_col_set_col)
qed

lemma no_depth_day_has_screen: "has_col no_depth_day screen_col"
  by (simp add: no_depth_day_def has_col_def)

lemma example_day_cols:
  "\<not> has_col example_day screen_col" "has_col example_day wob_col"
  "has_col example_day flow_col"
  "col example_day wob_col = Some [Fin 10, Fin 10]"
  "col example_day flow_col = Some [Fin 200, Fin 200]"
  by (simp_all add: example_day_def has_col_def col_def)

text \<open>
  C2. Whenever a \<^verbatim>\<open>Screen Utilization (%)\<close> column is present, the frame is returned
  as it is, whatever its other columns; the frame is changed only when that column is
  absent and both the weight-on-bit and the flow-rate column are present, and then the
  solids-rate and the utilization column are in the result.
\<close>

theorem deriveUtilization_noop_if_present:
  "(has_col df screen_col \<longrightarrow> deriveUtilization mesh_capacity df = df)
   \<and> (deriveUtilization mesh_capacity df \<noteq> df \<longrightarrow>
        \<not> has_col df screen_col \<and> has_col df wob_col \<and> has_col df flow_col)
   \<and> (\<not> has_col df screen_col \<and> has_col df wob_col \<and> has_col df flow_col \<longrightarrow>
        has_col (deriveUtilization mesh_capacity df) screen_col
        \<and> has_col (deriveUtilization mesh_capacity df) solids_col)"
  using deriveUtilization_noop [of df mesh_capacity]
    deriveUtilization_changes [of mesh_capacity df]
    deriveUtilization_adds [of df mesh_capacity]
  by blast

theorem deriveUtilization_noop_if_present_witness:
  "has_col no_depth_day screen_col
   \<and> deriveUtilization 250 no_depth_day = no_depth_day
   \<and> \<not> has_col example_day screen_col
   \<and> has_col example_day wob_col \<and> has_col example_day flow_col
   \<and> has_col (deriveUtilization 250 example_day) screen_col
   \<and> has_col (deriveUtilization 250 example_day) solids_col"
  using deriveUtilization_noop_if_present [of no_depth_day 250]
    deriveUtilization_noop_if_present [of example_day 250]
    no_depth_day_has_screen example_day_cols(1-3)
  by blast



section \<open>What deriving the utilization column leaves alone\<close>

lemma presolids_day_cols:
  "\<not> has_col presolids_day screen_col" "has_col presolids_day wob_col"
  "has_col presolids_day flow_col" "has_col presolids_day solids_col"
  "col presolids_day wob_col = Some [Fin 10]" "col presolids_day flow_col = Some [Fin 200]"
  "col presolids_day solids_col = Some [Fin 999]"
  by (simp_all add: presolids_day_def has_col_def col_def)

lemma presolids_day_wf: "wf_frame presolids_day"
  by (simp add: presolids_day_def wf_frame_def)

lemma presolids_day_derived:
  "col (deriveUtilization 250 presolids_day) solids_col = Some [Fin 20]"
  by (simp add: deriveUtilization_computes [OF presolids_day_cols(1) presolids_day_cols(5)
        presolids_day_cols(6)] col_set_col)

text \<open>
  C10, as stated, fails: a file that has a \<^verbatim>\<open>Solids Volume Rate (gpm)\<close> column and no
  utilization column has that column overwritten by line 63 (999 becomes 20).
\<close>

theorem deriveUtilization_overwrites_solids:
  "\<not> has_col presolids_day screen_col
   \<and> has_col presolids_day wob_col \<and> has_col presolids_day flow_col
   \<and> col presolids_day solids_col = Some [Fin 999]
   \<and> col (deriveUtilization 250 presolids_day) solids_col = Some [Fin 20]"
  using presolids_day_cols(1,2,3,7) presolids_day_derived by blast

text \<open>
  C10, amended. When the columns are computed, the rows (their number and order) are
  unchanged, every column other than \<^verbatim>\<open>Solids Volume Rate (gpm)\<close> and
  \<^verbatim>\<open>Screen Utilization (%)\<close> keeps its cells, the column names keep their order with
  the utilization column appended last (after the solids-rate column, which is appended
  when it was absent and stays in its place when it was present), and a frame with one
  cell per row in every column stays so. A solids-rate column that was present is
  overwritten.
\<close>

theorem deriveUtilization_frame:
  assumes "\<not> has_col df screen_col" and "has_col df wob_col" and "has_col df flow_col"
  shows "Date (deriveUtilization mesh_capacity df) = Date df
    \<and> (\<forall>c. c \<noteq> solids_col \<and> c \<noteq> screen_col \<longrightarrow>
          col (deriveUtilization mesh_capacity df) c = col df c)
    \<and> map fst (columns (deriveUtilization mesh_capacity df)) =
        map fst (columns df)
          @ (if has_col df solids_col then [screen_col] else [solids_col, screen_col])
    \<and> (wf_frame df \<longrightarrow> wf_frame (deriveUtilization mesh_capacity df))"
proof -
  from assms obtain wob flow
    where w: "col df wob_col = Some wob" and f: "col df flow_col = Some flow"
    by (auto simp: has_col_iff)
  let ?solids = "map (\<lambda>x. fdiv x (Fin 100)) (map2 fmul wob flow)"
  let ?util = "map (\<lambda>x. fmul (fdiv x (Fin (real_of_int mesh_capacity))) (Fin 100)) ?solids"
  have eq: "deriveUtilization mesh_capacity df =
      set_col (set_col df solids_col ?solids) screen_col ?util"
    using assms(1) w f by (rule deriveUtilization_computes)
  have d: "Date (deriveUtilization mesh_capacity df) = Date df"
    unfolding eq by (simp add: Date_set_col)
  have c: "\<forall>c. c \<noteq> solids_col \<and> c \<noteq> screen_col \<longrightarrow>
      col (deriveUtilization mesh_capacity df) c = col df c"
    unfolding eq by (simp add: col_set_col)
  have n: "map fst (columns (deriveUtilization mesh_capacity df)) =
      map fst (columns df)
        @ (if has_col df solids_col then [screen_col] else [solids_col, screen_col])"
    unfolding eq using assms(1) by (simp add: names_set_col has_col_set_col)
  have wf: "wf_frame (deriveUtilization mesh_capacity df)" if "wf_frame df"
  proof -
    have "length wob = length (Date df)" "length flow = length (Date df)"
      using that w f by (simp_all add: wf_col_length)
    then have l: "length ?solids = length (Date df)" "length ?util = length (Date df)"
      by simp_all
    have "wf_frame (set_col df solids_col ?solids)"
      using that l(1) by (rule wf_set_col)
    then show ?thesis
      unfolding eq using l(2) by (simp add: wf_set_col Date_set_col)
  qed
  from d c n wf show ?thesis by blast
qed

theorem deriveUtilization_frame_witness:
  "Date (deriveUtilization 250 presolids_day) = Date presolids_day
   \<and> col (deriveUtilization 250 presolids_day) wob_col = col presolids_day wob_col
   \<and> col (deriveUtilization 250 presolids_day) flow_col = col presolids_day flow_col
   \<and> map fst (columns (deriveUtilization 250 presolids_day)) =
       [solids_col, wob_col, flow_col, screen_col]
   \<and> wf_frame (deriveUtilization 250 presolids_day)"
proof -
  have n: "map fst (columns presolids_day) = [solids_col, wob_col, flow_col]"
    by (simp add: presolids_day_def)
  from deriveUtilization_frame [OF presolids_day_cols(1-3), of 250]
  show ?thesis using presolids_day_cols(4) presolids_day_wf n by simp
qed

section \<open>Solids removal efficiency\<close>

lemma computeEfficiency_computes:
  assumes "col df wob_col = Some wob" "col df flow_col = Some flow"
    "col df shaker_col = Some out_rate"
  shows "computeEfficiency df =
     Inr \<lparr>efficiency = map (\<lambda>x. fmul x (Fin 100))
             (map2 fdiv out_rate
                (map (\<lambda>x. fadd x (Fin (1 / 100000)))
                   (map (\<lambda>x. fdiv x (Fin 100)) (map2 fmul wob flow)))),
          eff_avg = series_mean (map (\<lambda>x. fmul x (Fin 100))
             (map2 fdiv out_rate
                (map (\<lambda>x. fadd x (Fin (1 / 100000)))
                   (map (\<lambda>x. fdiv x (Fin 100)) (map2 fmul wob flow))))),
          pie_slices = [series_mean (map (\<lambda>x. fmul x (Fin 100))
             (map2 fdiv out_rate
                (map (\<lambda>x. fadd x (Fin (1 / 100000)))
                   (map (\<lambda>x. fdiv x (Fin 100)) (map2 fmul wob flow))))),
             fsub (Fin 100) (series_mean (map (\<lambda>x. fmul x (Fin 100))
             (map2 fdiv out_rate
                (map (\<lambda>x. fadd x (Fin (1 / 100000)))
                   (map (\<lambda>x. fdiv x (Fin 100)) (map2 fmul wob flow))))))]\<rparr>"
  using assms by (simp add: computeEfficiency_def getitem_def Let_def)


lemma computeEfficiency_slices:
  assumes "computeEfficiency df = Inr r"
  shows "eff_avg r = series_mean (efficiency r)"
    and "pie_slices r = [eff_avg r, fsub (Fin 100) (eff_avg r)]"
  using assms
  by (auto simp: computeEfficiency_def getitem_def Let_def split: option.splits)

lemma idle_day_cols:
  "col idle_day wob_col = Some [Fin 0]" "col idle_day flow_col = Some [Fin 200]"
  "col idle_day shaker_col = Some [Fin 50]"
  by (simp_all add: idle_day_def col_def)

lemma idle_day_efficiency:
  "computeEfficiency idle_day =
     Inr \<lparr>efficiency = [Fin 500000000], eff_avg = Fin 500000000,
          pie_slices = [Fin 500000000, Fin (- 499999900)]\<rparr>"
  by (simp add: computeEfficiency_computes [OF idle_day_cols] series_mean_def
      series_sum_def notna_def fsub_def)



text \<open>
  C6, as stated, fails: on \<open>idle_day\<close> the mean efficiency is 500000000, far above 100,
  and the two slices handed to the pie chart are that mean and its complement
  -499999900, neither clamped nor flagged.
\<close>

theorem pie_slices_not_clamped:
  "computeEfficiency idle_day =
     Inr \<lparr>efficiency = [Fin 500000000], eff_avg = Fin 500000000,
          pie_slices = [Fin 500000000, Fin (- 499999900)]\<rparr>"
  by (rule idle_day_efficiency)

text \<open>
  C6, amended. For every frame on which the efficiency is computed, the two slices are
  the mean efficiency as computed and \<open>100\<close> minus it, whatever the mean: a finite mean
  \<open>a\<close> gives the slices \<open>a\<close> and \<open>100 - a\<close>, also when \<open>a\<close> is negative or above 100.
\<close>

theorem pie_slices_unmodified:
  "computeEfficiency df = Inr r \<longrightarrow>
     eff_avg r = series_mean (efficiency r)
     \<and> pie_slices r = [eff_avg r, fsub (Fin 100) (eff_avg r)]
     \<and> (\<forall>a. eff_avg r = Fin a \<longrightarrow> pie_slices r = [Fin a, Fin (100 - a)])"
proof
  assume r: "computeEfficiency df = Inr r"
  have "pie_slices r = [Fin a, Fin (100 - a)]" if "eff_avg r = Fin a" for a
    using computeEfficiency_slices(2) [OF r] that by (simp add: fsub_def)
  with computeEfficiency_slices [OF r]
  show "eff_avg r = series_mean (efficiency r)
     \<and> pie_slices r = [eff_avg r, fsub (Fin 100) (eff_avg r)]
     \<and> (\<forall>a. eff_avg r = Fin a \<longrightarrow> pie_slices r = [Fin a, Fin (100 - a)])"
    by blast
qed

theorem pie_slices_unmodified_witness:
  "computeEfficiency idle_day =
     Inr \<lparr>efficiency = [Fin 500000000], eff_avg = Fin 500000000,
          pie_slices = [Fin 500000000, Fin (- 499999900)]\<rparr>
   \<and> pie_slices \<lparr>efficiency = [Fin 500000000], eff_avg = Fin 500000000,
          pie_slices = [Fin 500000000, Fin (- 499999900)]\<rparr>
       = [Fin 500000000, Fin (100 - 500000000)]"
  using pie_slices_unmodified [of idle_day
      "\<lparr>efficiency = [Fin 500000000], eff_avg = Fin 500000000,
          pie_slices = [Fin 500000000, Fin (- 499999900)]\<rparr>"]
    idle_day_efficiency
  by simp

section \<open>When the summary is unavailable\<close>

















section \<open>Failure is per section, not per metric\<close>




section \<open>The calendar filter is idempotent\<close>

lemma select_rows_self: "select_rows (map P ds) ds = filter P ds"
  by (induction ds) (simp_all add: select_rows_def)

lemma length_select_rows:
  "length (select_rows (map P ds) xs) \<le> length (filter P ds)"
proof (induction ds arbitrary: xs)
  case Nil
  then show ?case by (simp add: select_rows_def)
next
  case (Cons d ds)
  show ?case
  proof (cases xs)
    case Nil
    then show ?thesis by (simp add: select_rows_def)
  next
    case (Cons y ys)
    with Cons.IH [of ys] show ?thesis by (simp add: select_rows_def)
  qed
qed

lemma select_rows_all:
  assumes "\<forall>b \<in> set keep. b" and "length xs \<le> length keep"
  shows "select_rows keep xs = xs"
proof -
  have "filter fst (zip keep xs) = zip keep xs"
    using assms(1) by (auto simp: filter_id_conv dest: set_zip_leftD)
  then show ?thesis
    using assms(2) by (simp add: select_rows_def map_snd_zip_take)
qed

lemma select_rows_idem:
  "select_rows (map P (filter P ds)) (select_rows (map P ds) xs) = select_rows (map P ds) xs"
  by (rule select_rows_all) (simp_all add: length_select_rows)

lemma calendar_filter_idem:
  "calendar_filter selected_date (calendar_filter selected_date df) =
     calendar_filter selected_date df"
  by (simp add: calendar_filter_def filter_rows_def select_rows_self select_rows_idem
      case_prod_unfold comp_def)

lemma Date_calendar_filter:
  "Date (calendar_filter selected_date df) = filter (\<lambda>d. Some d = selected_date) (Date df)"
  by (simp add: calendar_filter_def filter_rows_def select_rows_self)

lemma calendar_filter_same_day:
  assumes "wf_frame df" and "\<forall>d \<in> set (Date df). Some d = selected_date"
  shows "calendar_filter selected_date df = df"
proof -
  have "select_rows (map (\<lambda>d. Some d = selected_date) (Date df)) xs = xs"
    if "(c, xs) \<in> set (columns df)" for c xs
  proof (rule select_rows_all)
    show "\<forall>b \<in> set (map (\<lambda>d. Some d = selected_date) (Date df)). b"
      using assms(2) by auto
    show "length xs \<le> length (map (\<lambda>d. Some d = selected_date) (Date df))"
      using assms(1) that by (auto simp: wf_frame_def list_all_iff)
  qed
  then have "map (\<lambda>(c, xs). (c, select_rows (map (\<lambda>d. Some d = selected_date) (Date df)) xs))
      (columns df) = columns df"
    by (intro map_idI) auto
  moreover have "filter (\<lambda>d. Some d = selected_date) (Date df) = Date df"
    using assms(2) by (simp add: filter_id_conv)
  ultimately show ?thesis
    by (simp add: calendar_filter_def filter_rows_def select_rows_self)
qed

lemma wf_calendar_filter:
  assumes "wf_frame df"
  shows "wf_frame (calendar_filter selected_date df)"
proof -
  have "length (select_rows (map P ds) xs) = length (filter P ds)"
    if "length xs = length ds" for P :: "date \<Rightarrow> bool" and ds and xs :: "float64 list"
    using that by (induction xs ds rule: list_induct2) (simp_all add: select_rows_def)
  with assms show ?thesis
    by (auto simp: wf_frame_def list_all_iff calendar_filter_def filter_rows_def
        select_rows_self)
qed

lemma Date_deriveUtilization: "Date (deriveUtilization mesh_capacity df) = Date df"
  by (simp add: deriveUtilization_def Date_set_col Let_def split: option.splits)

lemma wf_deriveUtilization:
  assumes "wf_frame df"
  shows "wf_frame (deriveUtilization mesh_capacity df)"
proof (cases "\<not> has_col df screen_col \<and> has_col df wob_col \<and> has_col df flow_col")
  case True
  then obtain wob flow where c: "col df wob_col = Some wob" "col df flow_col = Some flow"
    by (auto simp: has_col_iff)
  have l: "length wob = length (Date df)" "length flow = length (Date df)"
    using assms c by (simp_all add: wf_col_length)
  show ?thesis
    using True c l assms
    by (simp add: deriveUtilization_computes wf_set_col Date_set_col)
next
  case False
  then show ?thesis
    using assms deriveUtilization_noop [of df mesh_capacity] by auto
qed

lemma deriveUtilization_idem:
  "deriveUtilization mesh_capacity (deriveUtilization mesh_capacity df) =
     deriveUtilization mesh_capacity df"
proof (cases "\<not> has_col df screen_col \<and> has_col df wob_col \<and> has_col df flow_col")
  case True
  then have "has_col (deriveUtilization mesh_capacity df) screen_col"
    by (simp add: deriveUtilization_adds(1))
  then show ?thesis
    by (simp add: deriveUtilization_noop)
next
  case False
  then have "deriveUtilization mesh_capacity df = df"
    using deriveUtilization_noop [of df mesh_capacity] by auto
  then show ?thesis by simp
qed

lemma shown_metrics_engine:
  "shown (metrics_engine df_mesh_type selected_date df) =
     deriveUtilization (SCREEN_MESH_CAPACITY df_mesh_type) (calendar_filter selected_date df)"
  by (simp add: metrics_engine_def Let_def)

lemma repass_shown:
  assumes "wf_frame df"
  shows "deriveUtilization mesh_capacity
      (calendar_filter selected_date
         (deriveUtilization mesh_capacity (calendar_filter selected_date df))) =
     deriveUtilization mesh_capacity (calendar_filter selected_date df)"
proof -
  let ?df1 = "deriveUtilization mesh_capacity (calendar_filter selected_date df)"
  have "wf_frame ?df1"
    using assms by (simp add: wf_calendar_filter wf_deriveUtilization)
  moreover have "\<forall>d \<in> set (Date ?df1). Some d = selected_date"
    by (simp add: Date_deriveUtilization Date_calendar_filter)
  ultimately have "calendar_filter selected_date ?df1 = ?df1"
    by (rule calendar_filter_same_day)
  then show ?thesis
    by (simp add: deriveUtilization_idem)
qed

lemma example_day_wf: "wf_frame example_day"
  by (simp add: example_day_def wf_frame_def)

lemma example_day_filtered: "calendar_filter (Some 738886) example_day = example_day"
  by (rule calendar_filter_same_day) (simp_all add: example_day_wf, simp add: example_day_def)

text \<open>
  C9. Filtering to a date is idempotent, and so are the derived metrics: filtering the
  filtered frame to the same date again gives the same frame, running the script on the
  filtered frame gives the same dashboard as running it on the unfiltered one, and
  running it again on the frame it has just shown (filtered, with the derived columns)
  gives the same dashboard once more. The pass is a function of the mesh type, the
  selected date and the uploaded frame alone, so equal inputs give equal outputs.
\<close>

theorem calendar_filter_idempotent:
  "calendar_filter selected_date (calendar_filter selected_date df) =
     calendar_filter selected_date df
   \<and> metrics_engine df_mesh_type selected_date (calendar_filter selected_date df) =
       metrics_engine df_mesh_type selected_date df
   \<and> (wf_frame df \<longrightarrow>
        metrics_engine df_mesh_type selected_date
          (shown (metrics_engine df_mesh_type selected_date df)) =
        metrics_engine df_mesh_type selected_date df)"
proof -
  have "metrics_engine df_mesh_type selected_date
          (shown (metrics_engine df_mesh_type selected_date df)) =
        metrics_engine df_mesh_type selected_date df" if "wf_frame df"
    unfolding shown_metrics_engine
    unfolding metrics_engine_def
    by (simp add: repass_shown [OF that])
  moreover have "metrics_engine df_mesh_type selected_date (calendar_filter selected_date df) =
       metrics_engine df_mesh_type selected_date df"
    by (simp add: metrics_engine_def calendar_filter_idem)
  ultimately show ?thesis
    using calendar_filter_idem [of selected_date df] by blast
qed

theorem calendar_filter_idempotent_witness:
  "wf_frame example_day
   \<and> calendar_filter (Some 738886) (calendar_filter (Some 738886) example_day) =
       calendar_filter (Some 738886) example_day
   \<and> metrics_engine API_100 (Some 738886)
        (shown (metrics_engine API_100 (Some 738886) example_day)) =
       metrics_engine API_100 (Some 738886) example_day
   \<and> overview (metrics_engine API_100 (Some 738886) example_day) = Inr example_summary"
proof -
  have "overview (metrics_engine API_100 (Some 738886) example_day) = Inr example_summary"
    by (simp add: metrics_engine_def Let_def example_day_filtered example_day_summary)
  then show ?thesis
    using calendar_filter_idempotent [of "Some 738886" example_day API_100] example_day_wf
    by blast
qed

end
